theory Spec2Isabelle
  imports Complex_Main "HOL-Library.Sublist"
begin

section \<open>LoopChamber: memory scoring and the memory store\<close>

text \<open>
  The development embeds the two scorers of the repository, \<^verbatim>\<open>MemoryScorer.score_memory\<close>
  of \<^verbatim>\<open>loopchamber_app.py\<close> and the one of \<^verbatim>\<open>memory_scorer.py\<close>, and the store
  \<^verbatim>\<open>MemoryStore\<close> of \<^verbatim>\<open>loopchamber_app.py\<close>.

  Conventions of the embedding.
  \<^item> Python strings are \<open>string\<close>; the characters are read as ASCII code points, so
    \<^verbatim>\<open>str.lower\<close> changes the letters A to Z only and \<^verbatim>\<open>str.split\<close> splits at Python's
    ASCII whitespace.
  \<^item> The decimal quantities of the scorer (Python floats) are exact rationals, and
    \<^verbatim>\<open>round(x, 2)\<close> rounds to the nearest hundredth, a tie going to the even neighbour.
    Python evaluates the same expressions in binary floating point, within a few units in
    the last place of the exact value; the results stated below do not sit on a rounding
    tie or on a clamp boundary where such an error could change the rounded figure, the
    tempo of the application scorer excepted, whose exact value can end in 5 thousandths.
  \<^item> A loop with an accumulator is a \<open>fold\<close> whose function is the loop body.
  \<^item> The clock, the random generator and the ISO timestamp read by \<^verbatim>\<open>add_memory\<close> are
    arguments of the model.
\<close>

subsection \<open>Text primitives\<close>

definition lower_char :: "char \<Rightarrow> char" where
  "lower_char c =
     (let n = (of_char c :: nat) in if 65 \<le> n \<and> n \<le> 90 then char_of (n + 32) else c)"

definition lower :: "string \<Rightarrow> string" where
  "lower s = map lower_char s"

definition is_space :: "char \<Rightarrow> bool" where
  "is_space c = ((of_char c :: nat) \<in> set [9, 10, 11, 12, 13, 28, 29, 30, 31, 32])"

text \<open>\<^verbatim>\<open>text.split()\<close>: the maximal runs of characters that are not whitespace.\<close>

fun split_ws :: "string \<Rightarrow> string \<Rightarrow> string list" where
  "split_ws cur [] = (if cur = [] then [] else [cur])"
| "split_ws cur (c # cs) =
     (if is_space c then (if cur = [] then split_ws [] cs else cur # split_ws [] cs)
      else split_ws (cur @ [c]) cs)"

definition split_text :: "string \<Rightarrow> string list" where
  "split_text s = split_ws [] s"

text \<open>\<^verbatim>\<open>w in text\<close> on strings: \<open>w\<close> occurs in \<open>text\<close> as a contiguous substring.\<close>

fun contains :: "string \<Rightarrow> string \<Rightarrow> bool" where
  "contains w [] = (w = [])"
| "contains w (c # cs) = (prefix w (c # cs) \<or> contains w cs)"

subsection \<open>Rounding to two decimals\<close>

definition round_half_even :: "rat \<Rightarrow> int" where
  "round_half_even x =
     (let f = \<lfloor>x\<rfloor>; d = x - of_int f in
      if d < 1 / 2 then f else if 1 / 2 < d then f + 1 else if even f then f else f + 1)"

definition round2 :: "rat \<Rightarrow> rat" where
  "round2 x = of_int (round_half_even (x * 100)) / 100"

subsection \<open>Records\<close>

record scores =
  pitch :: rat
  dissonance :: rat
  tempo :: rat
  emotion :: string

record memory =
  memory_id :: string
  content :: string
  memory_type :: string
  created_at :: string
  musical_attributes :: scores

record memory_store =
  memories :: "memory list"

subsection \<open>The lexicons of \<^verbatim>\<open>MemoryScorer.__init__\<close>\<close>

definition positive_words :: "string list" where
  "positive_words =
     [''happy'', ''joy'', ''glad'', ''delight'', ''pleased'', ''cheerful'', ''content'',
      ''satisfied'', ''excited'', ''thrilled'', ''optimistic'', ''enthusiastic'',
      ''hopeful'', ''confident'', ''proud'', ''love'', ''adore'', ''enjoy'', ''like'']"

definition negative_words :: "string list" where
  "negative_words =
     [''sad'', ''unhappy'', ''depressed'', ''gloomy'', ''miserable'', ''disappointed'',
      ''frustrated'', ''annoyed'', ''angry'', ''furious'', ''outraged'', ''irritated'',
      ''upset'', ''worried'', ''anxious'', ''afraid'', ''fearful'', ''scared'']"

definition neutral_words :: "string list" where
  "neutral_words =
     [''think'', ''consider'', ''believe'', ''understand'', ''know'', ''recognize'',
      ''observe'', ''notice'', ''perceive'', ''feel'', ''sense'', ''experience'']"

definition complex_words :: "string list" where
  "complex_words =
     [''bittersweet'', ''ambivalent'', ''conflicted'', ''torn'', ''mixed feelings'',
      ''nostalgic'', ''melancholy'', ''sentimental'', ''wistful'', ''longing'']"

text \<open>\<^verbatim>\<open>self.emotional_lexicons\<close>: a dictionary, in the order of its literal.\<close>

definition emotional_lexicons :: "(string \<times> string list) list" where
  "emotional_lexicons =
     [(''positive'', positive_words), (''negative'', negative_words),
      (''neutral'', neutral_words), (''complex'', complex_words)]"

definition contradiction_signals :: "string list" where
  "contradiction_signals =
     [''but'', ''however'', ''nevertheless'', ''conversely'', ''on the other hand'',
      ''in contrast'', ''contrary'', ''opposite'', ''unlike'', ''instead'',
      ''while'', ''whereas'', ''yet'', ''although'', ''despite'', ''in spite'']"

text \<open>\<^verbatim>\<open>self.emotional_lexicons[category]\<close>; the four keys are always present.\<close>

definition lexicon :: "string \<Rightarrow> string list" where
  "lexicon category = (case map_of emotional_lexicons category of Some ws \<Rightarrow> ws | None \<Rightarrow> [])"

subsection \<open>The parts of \<^verbatim>\<open>score_memory\<close>\<close>

definition type_weights :: "(string \<times> rat) list" where
  "type_weights =
     [(''insight'', 0.8), (''question'', 0.7), (''observation'', 0.6), (''event'', 0.5),
      (''reflection'', 0.7)]"

definition tempo_type_weights :: "(string \<times> rat) list" where
  "tempo_type_weights =
     [(''insight'', 0.7), (''question'', 0.8), (''observation'', 0.5), (''event'', 0.4),
      (''reflection'', 0.6)]"

text \<open>\<^verbatim>\<open>d.get(key, default)\<close>\<close>

definition get_default :: "(string \<times> rat) list \<Rightarrow> string \<Rightarrow> rat \<Rightarrow> rat" where
  "get_default d k dflt = (case map_of d k of Some v \<Rightarrow> v | None \<Rightarrow> dflt)"

definition pitch_of :: "string \<Rightarrow> string \<Rightarrow> rat" where
  "pitch_of text mtype =
     (let word_count = length (split_text text);
          length_factor = min 1 (max 0.1 (of_nat word_count / 100));
          type_factor = get_default type_weights (lower mtype) 0.5
      in length_factor * 0.4 + type_factor * 0.6)"

text \<open>The loop over \<^verbatim>\<open>self.contradiction_signals\<close>, then the cap at 0.8.\<close>

definition contradiction_score :: "string \<Rightarrow> rat" where
  "contradiction_score text =
     min 0.8 (fold (\<lambda>signal acc. if contains signal text then acc + 0.15 else acc)
                contradiction_signals 0)"

text \<open>\<^verbatim>\<open>any(signal in text for signal in self.contradiction_signals)\<close>\<close>

definition any_signal :: "string \<Rightarrow> bool" where
  "any_signal text = list_ex (\<lambda>signal. contains signal text) contradiction_signals"

text \<open>\<^verbatim>\<open>existing_memories[-5:]\<close>\<close>

definition last_five :: "'a list \<Rightarrow> 'a list" where
  "last_five xs = drop (length xs - 5) xs"

text \<open>
  The comparison with the stored memories. \<^verbatim>\<open>if existing_memories:\<close> is false for
  \<^verbatim>\<open>None\<close> and for the empty list alike, so the default argument \<^verbatim>\<open>None\<close> is the
  empty list here. Every record of the store has the key \<^verbatim>\<open>content\<close>.
\<close>

definition comparison_score :: "string \<Rightarrow> memory list \<Rightarrow> rat" where
  "comparison_score text existing_memories =
     (if existing_memories = [] then 0
      else fold (\<lambda>mem acc.
                   let existing_text = lower (content mem);
                       words = set (split_text text);
                       existing_words = set (split_text existing_text);
                       shared_words = words \<inter> existing_words
                   in if shared_words \<noteq> {} \<and> any_signal text then acc + 0.2 else acc)
                (last_five existing_memories) 0)"

definition dissonance_of :: "string \<Rightarrow> memory list \<Rightarrow> rat" where
  "dissonance_of text existing_memories =
     max 0.1 (min 0.9 (contradiction_score text + comparison_score text existing_memories))"

text \<open>The simplified scorer of \<^verbatim>\<open>memory_scorer.py\<close> leaves the comparison out.\<close>

definition dissonance_simplified :: "string \<Rightarrow> rat" where
  "dissonance_simplified text = max 0.1 (min 0.9 (contradiction_score text))"

text \<open>The inner loop \<^verbatim>\<open>for word in words: if word in text: n += 1\<close>.\<close>

definition count_words :: "string list \<Rightarrow> string \<Rightarrow> nat \<Rightarrow> nat" where
  "count_words ws text n0 = fold (\<lambda>word n. if contains word text then n + 1 else n) ws n0"

definition question_factor :: "string \<Rightarrow> rat" where
  "question_factor text = min 0.8 (of_nat (count_list text CHR ''?'') * 0.2)"

definition emotional_words :: "string \<Rightarrow> nat" where
  "emotional_words text =
     fold (\<lambda>category n. count_words (lexicon category) text n)
       [''positive'', ''negative'', ''complex''] 0"

definition tempo_of :: "string \<Rightarrow> string \<Rightarrow> rat" where
  "tempo_of text mtype =
     (let emotion_factor = min 0.8 (of_nat (emotional_words text) * 0.05);
          tempo_type_factor = get_default tempo_type_weights (lower mtype) 0.5
      in question_factor text * 0.3 + emotion_factor * 0.3 + tempo_type_factor * 0.4)"

definition tempo_simplified :: "string \<Rightarrow> string \<Rightarrow> rat" where
  "tempo_simplified text mtype =
     (let tempo_type_factor = get_default tempo_type_weights (lower mtype) 0.5
      in question_factor text * 0.4 + tempo_type_factor * 0.6)"

text \<open>\<^verbatim>\<open>emotion_counts\<close>: a dictionary in the insertion order of the lexicons.\<close>

definition emotion_counts :: "string \<Rightarrow> (string \<times> nat) list" where
  "emotion_counts text =
     map (\<lambda>(category, ws). (category, count_words ws text 0)) emotional_lexicons"

text \<open>The loop \<^verbatim>\<open>for emotion, count in emotion_counts.items()\<close> with its two variables.\<close>

definition find_dominant :: "(string \<times> nat) list \<Rightarrow> string" where
  "find_dominant counts =
     fst (fold (\<lambda>(emo, cnt) (dominant_emotion, max_count).
                  if cnt > max_count then (emo, cnt) else (dominant_emotion, max_count))
            counts (''neutral'', 0))"

text \<open>\<^verbatim>\<open>emotion_counts[key]\<close>; the four keys are always present.\<close>

definition count_of :: "(string \<times> nat) list \<Rightarrow> string \<Rightarrow> nat" where
  "count_of counts k = (case map_of counts k of Some n \<Rightarrow> n | None \<Rightarrow> 0)"

text \<open>The check for mixed emotions of \<^verbatim>\<open>loopchamber_app.py\<close>.\<close>

definition mixed_emotions :: "(string \<times> nat) list \<Rightarrow> string \<Rightarrow> string" where
  "mixed_emotions counts dominant_emotion =
     (if count_of counts ''positive'' > 0 \<and> count_of counts ''negative'' > 0 then
        (if count_of counts ''complex'' > 0
            \<or> \<bar>int (count_of counts ''positive'') - int (count_of counts ''negative'')\<bar> < 3
         then ''complex'' else dominant_emotion)
      else dominant_emotion)"

subsection \<open>The two scorers\<close>

text \<open>\<^verbatim>\<open>MemoryScorer.score_memory\<close> of \<^verbatim>\<open>loopchamber_app.py\<close>.\<close>

definition score_memory :: "string \<Rightarrow> string \<Rightarrow> memory list \<Rightarrow> scores" where
  "score_memory memory_content mtype existing_memories =
     (let text = lower memory_content;
          counts = emotion_counts text;
          dominant_emotion = mixed_emotions counts (find_dominant counts)
      in \<lparr>pitch = round2 (pitch_of text mtype),
          dissonance = round2 (dissonance_of text existing_memories),
          tempo = round2 (tempo_of text mtype),
          emotion = dominant_emotion\<rparr>)"

text \<open>
  \<^verbatim>\<open>MemoryScorer.score_memory\<close> of \<^verbatim>\<open>memory_scorer.py\<close>, which calls its dissonance
  the simplified version: no comparison with the stored memories, no emotional charge in
  the tempo, no check for mixed emotions.
\<close>

definition score_memory_simplified :: "string \<Rightarrow> string \<Rightarrow> memory list \<Rightarrow> scores" where
  "score_memory_simplified memory_content mtype existing_memories =
     (let text = lower memory_content;
          counts = emotion_counts text
      in \<lparr>pitch = round2 (pitch_of text mtype),
          dissonance = round2 (dissonance_simplified text),
          tempo = round2 (tempo_simplified text mtype),
          emotion = find_dominant counts\<rparr>)"

subsection \<open>The memory store of \<^verbatim>\<open>loopchamber_app.py\<close>\<close>

text \<open>\<^verbatim>\<open>str(n)\<close> for a natural number: its decimal digits.\<close>

definition digit_char :: "nat \<Rightarrow> char" where
  "digit_char d = char_of (48 + d)"

fun str_nat :: "nat \<Rightarrow> string" where
  "str_nat n = (if n < 10 then [digit_char n] else str_nat (n div 10) @ [digit_char (n mod 10)])"

declare str_nat.simps [simp del]

text \<open>
  \<^verbatim>\<open>f"mem_{int(time.time())}_{random.randint(1000, 9999)}"\<close>: \<open>now\<close> is the clock in whole
  seconds since the epoch and \<open>rnd\<close> the number drawn.
\<close>

definition make_memory_id :: "nat \<Rightarrow> nat \<Rightarrow> string" where
  "make_memory_id now rnd = ''mem_'' @ str_nat now @ ''_'' @ str_nat rnd"

definition empty_store :: memory_store where
  "empty_store = \<lparr>memories = []\<rparr>"

text \<open>
  \<^verbatim>\<open>MemoryStore.add_memory\<close>: the store after the call and the id returned. \<open>timestamp\<close>
  is \<^verbatim>\<open>datetime.now().isoformat()\<close>.
\<close>

definition add_memory ::
  "memory_store \<Rightarrow> nat \<Rightarrow> nat \<Rightarrow> string \<Rightarrow> string \<Rightarrow> string \<Rightarrow> rat \<Rightarrow> rat \<Rightarrow> rat \<Rightarrow> string
     \<Rightarrow> memory_store \<times> string" where
  "add_memory self now rnd timestamp cont mtype p d t e =
     (let mid = make_memory_id now rnd;
          mem = \<lparr>memory_id = mid, content = cont, memory_type = mtype, created_at = timestamp,
                  musical_attributes = \<lparr>pitch = p, dissonance = d, tempo = t, emotion = e\<rparr>\<rparr>
      in (self\<lparr>memories := memories self @ [mem]\<rparr>, mid))"

definition get_all_memories :: "memory_store \<Rightarrow> memory list" where
  "get_all_memories self = memories self"

subsection \<open>Connections\<close>





subsection \<open>The specification's vocabulary\<close>

text \<open>
  The definitions of this subsection follow the words of the specification, not the code:
  the clamp, the number of lexicon words and of contradiction signals found in a text, the
  signal score, the comparison bonus over the most recent entries of the history, the
  table of type factors, and the winner among the four category counts. The theorems
  below compare the scorers with them.
\<close>

definition clamp :: "rat \<Rightarrow> rat \<Rightarrow> rat \<Rightarrow> rat" where
  "clamp x lo hi = max lo (min hi x)"

definition lexicon_count :: "string \<Rightarrow> string \<Rightarrow> nat" where
  "lexicon_count category text = length (filter (\<lambda>w. contains w text) (lexicon category))"

definition signal_count :: "string \<Rightarrow> nat" where
  "signal_count text = length (filter (\<lambda>s. contains s text) contradiction_signals)"

definition signal_score :: "string \<Rightarrow> rat" where
  "signal_score text = min 0.8 (0.15 * of_nat (signal_count text))"

definition shares_token :: "string \<Rightarrow> memory \<Rightarrow> bool" where
  "shares_token text mem =
     list_ex (\<lambda>w. w \<in> set (split_text (lower (content mem)))) (split_text text)"

definition most_recent :: "nat \<Rightarrow> 'a list \<Rightarrow> 'a list" where
  "most_recent k history = take k (rev history)"

definition comparison_bonus :: "string \<Rightarrow> memory list \<Rightarrow> rat" where
  "comparison_bonus text history =
     (if 1 \<le> signal_count text
      then 0.2 * of_nat (length (filter (shares_token text) (most_recent 5 history)))
      else 0)"

definition type_factor_table :: "string \<Rightarrow> rat" where
  "type_factor_table t =
     (if t = ''insight'' then 0.8 else if t = ''question'' then 0.7
      else if t = ''observation'' then 0.6 else if t = ''event'' then 0.5
      else if t = ''reflection'' then 0.7 else 0.5)"

definition first_highest :: "nat \<Rightarrow> nat \<Rightarrow> nat \<Rightarrow> nat \<Rightarrow> string" where
  "first_highest p n u c =
     (if p = 0 \<and> n = 0 \<and> u = 0 \<and> c = 0 then ''neutral''
      else if n \<le> p \<and> u \<le> p \<and> c \<le> p then ''positive''
      else if u \<le> n \<and> c \<le> n then ''negative''
      else if c \<le> u then ''neutral''
      else ''complex'')"

definition mixed_signal :: "nat \<Rightarrow> nat \<Rightarrow> nat \<Rightarrow> bool" where
  "mixed_signal p n c = (0 < p \<and> 0 < n \<and> (0 < c \<or> \<bar>int p - int n\<bar> < 3))"

subsection \<open>Sample data for the concrete instances\<close>

definition scenario_text :: string where
  "scenario_text = ''I love this but I also feel anxious''"

definition sample_memory :: "string \<Rightarrow> memory" where
  "sample_memory c =
     \<lparr>memory_id = ''mem_1_1000'', content = c, memory_type = ''event'', created_at = [],
      musical_attributes = \<lparr>pitch = 0.34, dissonance = 0.1, tempo = 0.16, emotion = ''neutral''\<rparr>\<rparr>"


definition sample_history :: "memory list" where
  "sample_history =
     [sample_memory ''Jazz'', sample_memory ''blues'', sample_memory ''more JAZZ'',
      sample_memory ''blues'', sample_memory ''jazz,'']"

section \<open>Properties\<close>

subsection \<open>Auxiliary facts\<close>

lemma count_words_eq:
  "count_words ws text n0 = n0 + length (filter (\<lambda>w. contains w text) ws)"
  unfolding count_words_def by (induction ws arbitrary: n0) auto

lemma fold_add_const:
  fixes k :: rat
  shows "fold (\<lambda>x acc. if P x then acc + k else acc) xs a = a + k * of_nat (length (filter P xs))"
  by (induction xs arbitrary: a) (auto simp: algebra_simps)

lemma contradiction_score_eq: "contradiction_score text = signal_score text"
  by (simp add: contradiction_score_def signal_score_def signal_count_def fold_add_const)

lemma any_signal_iff: "any_signal text \<longleftrightarrow> 1 \<le> signal_count text"
  unfolding any_signal_def signal_count_def list_ex_iff
  by (auto simp: filter_empty_conv Suc_le_eq)

lemma last_five_recent: "length (filter P (last_five h)) = length (filter P (most_recent 5 h))"
proof -
  have "most_recent 5 h = rev (last_five h)"
    by (simp add: most_recent_def last_five_def take_rev)
  then show ?thesis by (simp add: rev_filter [symmetric])
qed

lemma shared_words_iff:
  "set (split_text text) \<inter> set (split_text (lower (content mem))) \<noteq> {} \<longleftrightarrow> shares_token text mem"
  by (auto simp: shares_token_def list_ex_iff)

lemma comparison_score_eq: "comparison_score text h = comparison_bonus text h"
proof (cases "h = []")
  case True
  then show ?thesis by (simp add: comparison_score_def comparison_bonus_def most_recent_def)
next
  case False
  have "comparison_score text h =
          0.2 * of_nat (length (filter (\<lambda>m. shares_token text m \<and> any_signal text) (last_five h)))"
    using False by (simp add: comparison_score_def Let_def shared_words_iff fold_add_const)
  also have "\<dots> = comparison_bonus text h"
  proof (cases "any_signal text")
    case True
    then have "1 \<le> signal_count text" using any_signal_iff by blast
    with True show ?thesis by (simp add: comparison_bonus_def last_five_recent)
  next
    case False
    then have "\<not> 1 \<le> signal_count text" using any_signal_iff by blast
    with False show ?thesis by (simp add: comparison_bonus_def)
  qed
  finally show ?thesis .
qed

lemma dissonance_refines:
  "dissonance (score_memory c t h) = round2 (clamp (signal_score (lower c) + comparison_bonus (lower c) h) 0.1 0.9)"
  by (simp add: score_memory_def Let_def dissonance_of_def clamp_def contradiction_score_eq comparison_score_eq)

lemma lexicon_simps:
  "lexicon ''positive'' = positive_words" "lexicon ''negative'' = negative_words"
  "lexicon ''neutral'' = neutral_words" "lexicon ''complex'' = complex_words"
  by (simp_all add: lexicon_def emotional_lexicons_def)

lemma emotion_counts_eq:
  "emotion_counts text =
     [(''positive'', lexicon_count ''positive'' text), (''negative'', lexicon_count ''negative'' text),
      (''neutral'', lexicon_count ''neutral'' text), (''complex'', lexicon_count ''complex'' text)]"
  by (simp add: emotion_counts_def emotional_lexicons_def lexicon_count_def lexicon_simps count_words_eq)

lemma count_of_simps:
  "count_of [(''positive'', p), (''negative'', n), (''neutral'', u), (''complex'', c)] ''positive'' = p"
  "count_of [(''positive'', p), (''negative'', n), (''neutral'', u), (''complex'', c)] ''negative'' = n"
  "count_of [(''positive'', p), (''negative'', n), (''neutral'', u), (''complex'', c)] ''complex'' = c"
  by (simp_all add: count_of_def)

lemma find_dominant_eq:
  "find_dominant [(''positive'', p), (''negative'', n), (''neutral'', u), (''complex'', c)] =
     first_highest p n u c"
  by (auto simp: find_dominant_def first_highest_def)

lemma mixed_emotions_eq:
  "mixed_emotions [(''positive'', p), (''negative'', n), (''neutral'', u), (''complex'', c)] d =
     (if mixed_signal p n c then ''complex'' else d)"
  by (simp only: mixed_emotions_def count_of_simps mixed_signal_def) auto

lemma emotion_score_memory:
  "emotion (score_memory cnt t h) =
     (let text = lower cnt;
          p = lexicon_count ''positive'' text; n = lexicon_count ''negative'' text;
          u = lexicon_count ''neutral'' text; c = lexicon_count ''complex'' text
      in if mixed_signal p n c then ''complex'' else first_highest p n u c)"
  by (simp add: score_memory_def Let_def emotion_counts_eq mixed_emotions_eq find_dominant_eq)

lemma emotion_score_memory_simplified:
  "emotion (score_memory_simplified cnt t h) =
     (let text = lower cnt in
      first_highest (lexicon_count ''positive'' text) (lexicon_count ''negative'' text)
        (lexicon_count ''neutral'' text) (lexicon_count ''complex'' text))"
  by (simp add: score_memory_simplified_def Let_def emotion_counts_eq find_dominant_eq)

lemma get_default_type_weights: "get_default type_weights k (1 / 2) = type_factor_table k"
  by (simp add: get_default_def type_weights_def type_factor_table_def)

lemma min_max_clamp: "min 1 (max (1 / 10) (x :: rat)) = clamp x (1 / 10) 1"
  by (simp add: clamp_def min_def max_def)

lemma pitch_of_eq:
  "pitch_of text t = 0.4 * clamp (of_nat (length (split_text text)) / 100) 0.1 1 + 0.6 * type_factor_table (lower t)"
  by (simp add: pitch_of_def Let_def get_default_type_weights min_max_clamp)

lemma is_space_lower_char: "is_space (lower_char c) = is_space c"
proof (cases "65 \<le> (of_char c :: nat) \<and> (of_char c :: nat) \<le> 90")
  case True
  then have "(of_char (char_of (of_char c + 32 :: nat)) :: nat) = of_char c + 32"
    by simp
  with True show ?thesis
    by (auto simp: is_space_def lower_char_def Let_def)
next
  case False
  then show ?thesis by (auto simp: lower_char_def Let_def)
qed

lemma split_ws_lower:
  "split_ws (lower cur) (lower s) = map lower (split_ws cur s)"
proof (induction s arbitrary: cur)
  case Nil
  then show ?case by (simp add: lower_def)
next
  case (Cons c s)
  have "lower (cur @ [c]) = lower cur @ [lower_char c]" by (simp add: lower_def)
  moreover have "lower (c # s) = lower_char c # lower s" by (simp add: lower_def)
  moreover have "(lower cur = []) = (cur = [])" by (simp add: lower_def)
  moreover have "lower [] = []" by (simp add: lower_def)
  ultimately show ?case
    using Cons.IH [of "[]"] Cons.IH [of "cur @ [c]"]
    by (simp add: is_space_lower_char)
qed

lemma split_text_lower: "split_text (lower s) = map lower (split_text s)"
  using split_ws_lower [of "[]" s] by (simp add: split_text_def lower_def)

lemma word_count_lower: "length (split_text (lower s)) = length (split_text s)"
  by (simp add: split_text_lower)

lemma round_half_even_ge: "of_int n \<le> x \<Longrightarrow> n \<le> round_half_even x"
proof -
  assume "of_int n \<le> x"
  then have "n \<le> \<lfloor>x\<rfloor>" by (simp add: le_floor_iff)
  then show ?thesis by (auto simp: round_half_even_def Let_def)
qed

lemma round_half_even_le: "x \<le> of_int m \<Longrightarrow> round_half_even x \<le> m"
proof -
  assume a: "x \<le> of_int m"
  then have f: "\<lfloor>x\<rfloor> \<le> m" by (simp add: floor_le_iff)
  show ?thesis
  proof (cases "x = of_int \<lfloor>x\<rfloor>")
    case True
    then have "x - of_int \<lfloor>x\<rfloor> < 1 / 2" by simp
    with f show ?thesis by (simp add: round_half_even_def Let_def)
  next
    case False
    moreover have "of_int \<lfloor>x\<rfloor> \<le> x" by (rule of_int_floor_le)
    ultimately have "of_int \<lfloor>x\<rfloor> < x" by linarith
    with a have "of_int \<lfloor>x\<rfloor> < (of_int m :: rat)" by linarith
    then have "\<lfloor>x\<rfloor> < m" by simp
    then show ?thesis by (auto simp: round_half_even_def Let_def)
  qed
qed

lemma round2_bounds:
  assumes "of_int a / 100 \<le> x" "x \<le> of_int b / 100"
  shows "of_int a / 100 \<le> round2 x \<and> round2 x \<le> of_int b / 100"
proof -
  from assms have "of_int a \<le> x * 100" "x * 100 \<le> of_int b" by (simp_all add: field_simps)
  then have "a \<le> round_half_even (x * 100)" "round_half_even (x * 100) \<le> b"
    by (simp_all add: round_half_even_ge round_half_even_le)
  then have "(of_int a :: rat) \<le> of_int (round_half_even (x * 100))"
    "(of_int (round_half_even (x * 100)) :: rat) \<le> of_int b" by simp_all
  then show ?thesis by (simp add: round2_def divide_right_mono)
qed

lemma type_factor_table_bounds: "1 / 2 \<le> type_factor_table k \<and> type_factor_table k \<le> 4 / 5"
  by (simp add: type_factor_table_def)

lemma tempo_type_bounds:
  "2 / 5 \<le> get_default tempo_type_weights k (1 / 2) \<and> get_default tempo_type_weights k (1 / 2) \<le> 4 / 5"
  by (simp add: get_default_def tempo_type_weights_def)

lemma question_factor_bounds: "0 \<le> question_factor text \<and> question_factor text \<le> 4 / 5"
  by (simp add: question_factor_def)

lemma clamp_bounds: "lo \<le> hi \<Longrightarrow> lo \<le> clamp x lo hi \<and> clamp x lo hi \<le> hi"
  by (simp add: clamp_def)

lemma pitch_of_bounds: "17 / 50 \<le> pitch_of text t \<and> pitch_of text t \<le> 22 / 25"
proof -
  define lf where "lf = clamp (of_nat (length (split_text text)) / 100) (1 / 10) 1"
  have l: "1 / 10 \<le> lf \<and> lf \<le> 1" unfolding lf_def by (rule clamp_bounds) simp
  have p: "pitch_of text t = 2 / 5 * lf + 3 / 5 * type_factor_table (lower t)"
    by (simp add: pitch_of_eq lf_def)
  show ?thesis using l type_factor_table_bounds [of "lower t"] unfolding p by simp
qed

lemma max_min_bounds: "lo \<le> hi \<Longrightarrow> lo \<le> max lo (min hi (x :: rat)) \<and> max lo (min hi x) \<le> hi"
  by simp

lemma dissonance_of_bounds: "1 / 10 \<le> dissonance_of text h \<and> dissonance_of text h \<le> 9 / 10"
  unfolding dissonance_of_def
  using max_min_bounds [of "1 / 10" "9 / 10"] by simp

lemma dissonance_simplified_bounds:
  "1 / 10 \<le> dissonance_simplified text \<and> dissonance_simplified text \<le> 9 / 10"
  unfolding dissonance_simplified_def
  using max_min_bounds [of "1 / 10" "9 / 10"] by simp

lemma tempo_of_bounds: "4 / 25 \<le> tempo_of text t \<and> tempo_of text t \<le> 4 / 5"
proof -
  define ef :: rat where "ef = min (4 / 5) (of_nat (emotional_words text) * (1 / 20))"
  have e: "0 \<le> ef \<and> ef \<le> 4 / 5" by (simp add: ef_def)
  have t: "tempo_of text t =
      question_factor text * (3 / 10) + ef * (3 / 10) + get_default tempo_type_weights (lower t) (1 / 2) * (2 / 5)"
    by (simp add: tempo_of_def Let_def ef_def)
  show ?thesis
    using e question_factor_bounds [of "text"] tempo_type_bounds [of "lower t"] unfolding t by simp
qed

lemma tempo_simplified_bounds: "6 / 25 \<le> tempo_simplified text t \<and> tempo_simplified text t \<le> 4 / 5"
proof -
  have t: "tempo_simplified text t =
      question_factor text * (2 / 5) + get_default tempo_type_weights (lower t) (1 / 2) * (3 / 5)"
    by (simp add: tempo_simplified_def Let_def)
  show ?thesis
    using question_factor_bounds [of "text"] tempo_type_bounds [of "lower t"] unfolding t by simp
qed

lemma first_highest_label:
  "first_highest p n u c \<in> {''positive'', ''negative'', ''neutral'', ''complex''}"
  by (simp add: first_highest_def)








subsection \<open>Emotion\<close>

text \<open>
  Claim C1, for the scorer of \<^verbatim>\<open>loopchamber_app.py\<close>. For every content, type and
  history: when the lowered text holds at least one positive and one negative lexicon
  word, and either a complex lexicon word or positive and negative counts less than 3
  apart, the emotion returned is \<open>complex\<close>, whichever count is higher. The text
  \<open>I love this but I also feel anxious\<close> scored as an insight has emotion \<open>complex\<close>
  and a dissonance of at least 0.1, whatever the history.
\<close>

theorem C1_mixed_signal_override:
  "(0 < lexicon_count ''positive'' (lower cnt) \<and> 0 < lexicon_count ''negative'' (lower cnt)
      \<and> (0 < lexicon_count ''complex'' (lower cnt)
          \<or> \<bar>int (lexicon_count ''positive'' (lower cnt)) - int (lexicon_count ''negative'' (lower cnt))\<bar> < 3)
     \<longrightarrow> emotion (score_memory cnt t h) = ''complex'')
   \<and> emotion (score_memory scenario_text ''insight'' h) = ''complex''
   \<and> 0.1 \<le> dissonance (score_memory scenario_text ''insight'' h)"
proof (intro conjI impI)
  assume "0 < lexicon_count ''positive'' (lower cnt) \<and> 0 < lexicon_count ''negative'' (lower cnt)
      \<and> (0 < lexicon_count ''complex'' (lower cnt)
          \<or> \<bar>int (lexicon_count ''positive'' (lower cnt)) - int (lexicon_count ''negative'' (lower cnt))\<bar> < 3)"
  then show "emotion (score_memory cnt t h) = ''complex''"
    by (simp add: emotion_score_memory Let_def mixed_signal_def)
next
  have p: "lexicon_count ''positive'' (lower scenario_text) = 1" by code_simp
  have n: "lexicon_count ''negative'' (lower scenario_text) = 1" by code_simp
  show "emotion (score_memory scenario_text ''insight'' h) = ''complex''"
    by (simp add: emotion_score_memory Let_def mixed_signal_def p n)
next
  have "of_int 10 / 100 \<le> round2 (dissonance_of (lower scenario_text) h)
        \<and> round2 (dissonance_of (lower scenario_text) h) \<le> of_int 90 / 100"
    using dissonance_of_bounds [of "lower scenario_text" h] by (intro round2_bounds) simp_all
  then show "0.1 \<le> dissonance (score_memory scenario_text ''insight'' h)"
    by (simp add: score_memory_def Let_def)
qed

text \<open>An instance: one positive and one negative word, in upper and lower case.\<close>

theorem C1_mixed_signal_override_witness:
  "0 < lexicon_count ''positive'' (lower ''I LOVE it, sad'')
   \<and> 0 < lexicon_count ''negative'' (lower ''I LOVE it, sad'')
   \<and> emotion (score_memory ''I LOVE it, sad'' ''event'' []) = ''complex''"
proof -
  have p: "lexicon_count ''positive'' (lower ''I LOVE it, sad'') = 1" by code_simp
  have n: "lexicon_count ''negative'' (lower ''I LOVE it, sad'') = 1" by code_simp
  show ?thesis
    using C1_mixed_signal_override [of "''I LOVE it, sad''" "''event''" "[]"] by (simp add: p n)
qed

text \<open>
  The scorer of \<^verbatim>\<open>memory_scorer.py\<close> has no check for mixed emotions: on the text of
  the scenario, with one positive and one negative word, it returns \<open>positive\<close>.
\<close>

theorem C1_simplified_scorer_counterexample:
  "0 < lexicon_count ''positive'' (lower scenario_text)
   \<and> 0 < lexicon_count ''negative'' (lower scenario_text)
   \<and> \<bar>int (lexicon_count ''positive'' (lower scenario_text))
        - int (lexicon_count ''negative'' (lower scenario_text))\<bar> < 3
   \<and> emotion (score_memory_simplified scenario_text ''insight'' []) = ''positive''
   \<and> emotion (score_memory_simplified scenario_text ''insight'' []) \<noteq> ''complex''"
  by code_simp

text \<open>
  Claim C2, as the code has it. With \<open>p\<close>, \<open>n\<close>, \<open>u\<close>, \<open>c\<close> the positive, negative,
  neutral and complex counts of the lowered text, the scorer of \<^verbatim>\<open>memory_scorer.py\<close>
  returns \<open>neutral\<close> when all four are zero and otherwise the first category, in the
  order positive, negative, neutral, complex, whose count equals the highest count: a tie
  for the highest count goes to the earlier category, not to \<open>neutral\<close>. The scorer of
  \<^verbatim>\<open>loopchamber_app.py\<close> returns the same label unless its check for mixed emotions
  applies, and then \<open>complex\<close>.
\<close>

theorem C2_first_highest_wins:
  "emotion (score_memory_simplified cnt t h) =
     first_highest (lexicon_count ''positive'' (lower cnt)) (lexicon_count ''negative'' (lower cnt))
       (lexicon_count ''neutral'' (lower cnt)) (lexicon_count ''complex'' (lower cnt))
   \<and> emotion (score_memory cnt t h) =
     (if mixed_signal (lexicon_count ''positive'' (lower cnt)) (lexicon_count ''negative'' (lower cnt))
           (lexicon_count ''complex'' (lower cnt))
      then ''complex''
      else first_highest (lexicon_count ''positive'' (lower cnt)) (lexicon_count ''negative'' (lower cnt))
             (lexicon_count ''neutral'' (lower cnt)) (lexicon_count ''complex'' (lower cnt)))"
  by (simp add: emotion_score_memory emotion_score_memory_simplified Let_def)

text \<open>
  In \<open>happy think\<close> the positive and the neutral count tie at 1 and the other two are 0;
  both scorers return \<open>positive\<close>.
\<close>

theorem C2_tie_counterexample:
  "lexicon_count ''positive'' (lower ''happy think'') = 1
   \<and> lexicon_count ''neutral'' (lower ''happy think'') = 1
   \<and> lexicon_count ''negative'' (lower ''happy think'') = 0
   \<and> lexicon_count ''complex'' (lower ''happy think'') = 0
   \<and> emotion (score_memory ''happy think'' ''event'' []) = ''positive''
   \<and> emotion (score_memory_simplified ''happy think'' ''event'' []) = ''positive''"
  by code_simp

subsection \<open>Dissonance\<close>

text \<open>
  Claim C3, for the scorer of \<^verbatim>\<open>loopchamber_app.py\<close>. For every content, type and
  history, the dissonance returned is the sum of the signal score and the comparison
  bonus, clamped to the interval from 0.1 to 0.9 and rounded to two decimals, where the
  signal score is the smaller of 0.8 and 0.15 times the number of contradiction signals
  found in the lowered text, and the comparison bonus is 0.2 for each of the five most
  recent entries of the history that shares a whitespace-separated token with the lowered
  text, its content lowered too, provided the text holds a contradiction signal. Entries
  older than the last five do not change the dissonance.
\<close>

theorem C3_dissonance_formula:
  "dissonance (score_memory cnt t h) =
     round2 (clamp (signal_score (lower cnt) + comparison_bonus (lower cnt) h) 0.1 0.9)
   \<and> (5 \<le> length h \<longrightarrow>
        dissonance (score_memory cnt t (older @ h)) = dissonance (score_memory cnt t h))"
proof (intro conjI impI)
  show "dissonance (score_memory cnt t h) =
     round2 (clamp (signal_score (lower cnt) + comparison_bonus (lower cnt) h) 0.1 0.9)"
    by (rule dissonance_refines)
next
  assume "5 \<le> length h"
  then have "most_recent 5 (older @ h) = most_recent 5 h"
    by (simp add: most_recent_def)
  then have "comparison_bonus (lower cnt) (older @ h) = comparison_bonus (lower cnt) h"
    by (simp add: comparison_bonus_def)
  then show "dissonance (score_memory cnt t (older @ h)) = dissonance (score_memory cnt t h)"
    by (simp add: dissonance_refines)
qed

text \<open>
  An instance: of five entries two share the token \<open>jazz\<close> with the text (the entry
  \<open>jazz,\<close> does not), so the dissonance is 0.15 + 2 * 0.2; a sixth, older entry that
  shares the token leaves it there.
\<close>

theorem C3_dissonance_formula_witness:
  "5 \<le> length sample_history
   \<and> dissonance (score_memory ''jazz however'' ''event'' sample_history) = 0.55
   \<and> dissonance (score_memory ''jazz however'' ''event'' ([sample_memory ''jazz''] @ sample_history)) = 0.55"
proof -
  have l: "5 \<le> length sample_history" by (simp add: sample_history_def)
  have v: "dissonance (score_memory ''jazz however'' ''event'' sample_history) = 0.55"
    by code_simp
  from C3_dissonance_formula [of "''jazz however''" "''event''" sample_history "[sample_memory ''jazz'']"] l
  have "dissonance (score_memory ''jazz however'' ''event'' ([sample_memory ''jazz''] @ sample_history))
          = dissonance (score_memory ''jazz however'' ''event'' sample_history)"
    by blast
  with l v show ?thesis by simp
qed

subsection \<open>Pitch\<close>

text \<open>
  Claim C4, for both scorers. For every content, type and history, the pitch returned is
  0.4 times the clamp of word count over 100 to the interval from 0.1 to 1, plus 0.6 times
  the type factor, rounded to two decimals. The word count is the number of
  whitespace-separated tokens of the content. The type factor is read from the table of
  the specification at the lowered type: the code compares the type without regard to
  case, and a type that is none of the five names in any case has the factor 0.5.
\<close>

theorem C4_pitch_formula:
  "pitch (score_memory cnt t h) =
     round2 (0.4 * clamp (of_nat (length (split_text cnt)) / 100) 0.1 1.0
             + 0.6 * type_factor_table (lower t))
   \<and> pitch (score_memory_simplified cnt t h) =
     round2 (0.4 * clamp (of_nat (length (split_text cnt)) / 100) 0.1 1.0
             + 0.6 * type_factor_table (lower t))"
  by (simp add: score_memory_def score_memory_simplified_def Let_def pitch_of_eq word_count_lower)

text \<open>Rounding to two decimals keeps a value within bounds that are whole hundredths.\<close>

lemma round2_unit_interval:
  "of_int a / 100 \<le> x \<Longrightarrow> x \<le> of_int b / 100 \<Longrightarrow> 0 \<le> a \<Longrightarrow> b \<le> 100 \<Longrightarrow>
     0 \<le> round2 x \<and> round2 x \<le> 1"
proof -
  assume x: "of_int a / 100 \<le> x" "x \<le> of_int b / 100" and a: "0 \<le> a" and b: "b \<le> 100"
  from x have r: "of_int a / 100 \<le> round2 x \<and> round2 x \<le> of_int b / 100" by (rule round2_bounds)
  from a have "(0::rat) \<le> of_int a / 100" by simp
  moreover from b have "(of_int b :: rat) / 100 \<le> 1" by simp
  ultimately show ?thesis using r by linarith
qed

lemma pitch_range: "0 \<le> round2 (pitch_of text t) \<and> round2 (pitch_of text t) \<le> 1"
  using pitch_of_bounds [of "text" t] by (intro round2_unit_interval [of 34 _ 88]) simp_all

lemma tempo_range: "0 \<le> round2 (tempo_of text t) \<and> round2 (tempo_of text t) \<le> 1"
  using tempo_of_bounds [of "text" t] by (intro round2_unit_interval [of 16 _ 80]) simp_all

lemma tempo_simplified_range:
  "0 \<le> round2 (tempo_simplified text t) \<and> round2 (tempo_simplified text t) \<le> 1"
  using tempo_simplified_bounds [of "text" t] by (intro round2_unit_interval [of 24 _ 80]) simp_all

lemma dissonance_range:
  "1 / 10 \<le> round2 (dissonance_of text h) \<and> round2 (dissonance_of text h) \<le> 9 / 10"
  using dissonance_of_bounds [of "text" h] round2_bounds [of 10 "dissonance_of text h" 90] by simp

lemma dissonance_simplified_range:
  "1 / 10 \<le> round2 (dissonance_simplified text) \<and> round2 (dissonance_simplified text) \<le> 9 / 10"
  using dissonance_simplified_bounds [of "text"] round2_bounds [of 10 "dissonance_simplified text" 90]
  by simp

lemma emotion_labels:
  "emotion (score_memory cnt t h) \<in> {''positive'', ''negative'', ''neutral'', ''complex''}"
  "emotion (score_memory_simplified cnt t h) \<in> {''positive'', ''negative'', ''neutral'', ''complex''}"
  using first_highest_label
  by (auto simp: emotion_score_memory emotion_score_memory_simplified Let_def)

subsection \<open>Ranges of the attributes\<close>

text \<open>
  Claim C7, for both scorers. For every content, every type, recognised or not, and every
  history: pitch and tempo lie between 0 and 1, dissonance lies between 0.1 and 0.9, and
  emotion is one of \<open>positive\<close>, \<open>negative\<close>, \<open>neutral\<close>, \<open>complex\<close>.
\<close>

theorem C7_attribute_ranges:
  "(0 \<le> pitch (score_memory cnt t h) \<and> pitch (score_memory cnt t h) \<le> 1)
   \<and> (0.1 \<le> dissonance (score_memory cnt t h) \<and> dissonance (score_memory cnt t h) \<le> 0.9)
   \<and> (0 \<le> tempo (score_memory cnt t h) \<and> tempo (score_memory cnt t h) \<le> 1)
   \<and> emotion (score_memory cnt t h) \<in> {''positive'', ''negative'', ''neutral'', ''complex''}
   \<and> (0 \<le> pitch (score_memory_simplified cnt t h) \<and> pitch (score_memory_simplified cnt t h) \<le> 1)
   \<and> (0.1 \<le> dissonance (score_memory_simplified cnt t h)
        \<and> dissonance (score_memory_simplified cnt t h) \<le> 0.9)
   \<and> (0 \<le> tempo (score_memory_simplified cnt t h) \<and> tempo (score_memory_simplified cnt t h) \<le> 1)
   \<and> emotion (score_memory_simplified cnt t h) \<in> {''positive'', ''negative'', ''neutral'', ''complex''}"
proof -
  have p: "pitch (score_memory cnt t h) = round2 (pitch_of (lower cnt) t)"
    "pitch (score_memory_simplified cnt t h) = round2 (pitch_of (lower cnt) t)"
    by (simp_all add: score_memory_def score_memory_simplified_def Let_def)
  have d: "dissonance (score_memory cnt t h) = round2 (dissonance_of (lower cnt) h)"
    "dissonance (score_memory_simplified cnt t h) = round2 (dissonance_simplified (lower cnt))"
    by (simp_all add: score_memory_def score_memory_simplified_def Let_def)
  have m: "tempo (score_memory cnt t h) = round2 (tempo_of (lower cnt) t)"
    "tempo (score_memory_simplified cnt t h) = round2 (tempo_simplified (lower cnt) t)"
    by (simp_all add: score_memory_def score_memory_simplified_def Let_def)
  show ?thesis
    unfolding p d m
    using pitch_range [of "lower cnt" t] dissonance_range [of "lower cnt" h]
      dissonance_simplified_range [of "lower cnt"] tempo_range [of "lower cnt" t]
      tempo_simplified_range [of "lower cnt" t] emotion_labels [of cnt t h]
    by simp
qed

text \<open>
  Claim C8. The scorer has no failing branch. On the empty content with type
  \<open>event\<close> and an empty history it returns pitch 0.34, that is 0.4 * 0.1 + 0.6 * 0.5,
  dissonance 0.1, emotion \<open>neutral\<close>, and tempo 0.16, which is the type term alone:
  0.4 times the tempo weight of \<open>event\<close>.
\<close>

theorem C8_empty_content:
  "score_memory [] ''event'' [] =
     \<lparr>pitch = 0.34, dissonance = 0.1, tempo = 0.16, emotion = ''neutral''\<rparr>
   \<and> pitch (score_memory [] ''event'' []) = 0.4 * 0.1 + 0.6 * 0.5
   \<and> tempo (score_memory [] ''event'' []) = 0.4 * get_default tempo_type_weights ''event'' 0.5"
  by code_simp

subsection \<open>The store\<close>




subsection \<open>Adding a memory\<close>

text \<open>
  Claim C9. \<^verbatim>\<open>add_memory\<close> puts one new record, built from its arguments, at the end
  of the collection: the collection is one longer and its earlier part is the collection
  before the call, every field of every record untouched. \<^verbatim>\<open>get_all_memories\<close>
  returns the whole collection in this order.
\<close>

theorem C9_add_memory_appends:
  "get_all_memories (fst (add_memory st now rnd ts cnt ty p d t e)) =
     get_all_memories st @
       [\<lparr>memory_id = snd (add_memory st now rnd ts cnt ty p d t e), content = cnt,
         memory_type = ty, created_at = ts,
         musical_attributes = \<lparr>pitch = p, dissonance = d, tempo = t, emotion = e\<rparr>\<rparr>]
   \<and> length (get_all_memories (fst (add_memory st now rnd ts cnt ty p d t e)))
       = Suc (length (get_all_memories st))
   \<and> take (length (get_all_memories st)) (get_all_memories (fst (add_memory st now rnd ts cnt ty p d t e)))
       = get_all_memories st
   \<and> get_all_memories st = memories st"
  by (simp add: add_memory_def get_all_memories_def Let_def)

text \<open>
  Claim C10. \<^verbatim>\<open>add_memory\<close> checks none of its arguments: for every pitch, dissonance,
  tempo and emotion, the attributes of the record stored last are the values passed, and
  the call returns the new id.
\<close>

theorem C10_attributes_stored_verbatim:
  "musical_attributes (last (memories (fst (add_memory st now rnd ts cnt ty p d t e))))
     = \<lparr>pitch = p, dissonance = d, tempo = t, emotion = e\<rparr>
   \<and> snd (add_memory st now rnd ts cnt ty p d t e) = make_memory_id now rnd"
  by (simp add: add_memory_def Let_def)

text \<open>An instance with values outside the ranges and a label outside the four.\<close>

theorem C10_attributes_stored_verbatim_witness:
  "musical_attributes
     (last (memories (fst (add_memory empty_store 1700000000 1234 [] ''x'' ''event'' 5 (- 1) 1.5 ''tense''))))
     = \<lparr>pitch = 5, dissonance = - 1, tempo = 1.5, emotion = ''tense''\<rparr>"
  using C10_attributes_stored_verbatim [of empty_store 1700000000 1234 "[]" "''x''" "''event''" 5 "- 1" "1.5" "''tense''"]
  by simp

subsection \<open>Connections\<close>




end
